theory Spec2Isabelle
  imports Main "HOL-Library.Word"
begin

unbundle bit_operations_syntax

section \<open>Values shared by the handlers\<close>

text \<open>
  The program is one class, \<open>YouTubeAudioDownloaderBot\<close>, in \<open>main.py\<close>. Its methods are
  embedded as functions that take the state they touch (the SQLite database, the files under
  the download directory, the per-user \<open>context.user_data\<close>) and return it updated.
  Python strings are modelled as \<open>string\<close>; the fixed user-facing texts of the bot, which
  contain emoji and accented letters, are constructors of the datatype \<open>msg\<close> below rather
  than character lists. \<open>datetime.now()\<close> is an integer clock reading.
\<close>

type_synonym byte = "8 word"
type_synonym path = string
type_synonym time = int

text \<open>The files on disk: a path either does not exist or holds a byte sequence.\<close>

type_synonym files = "path \<rightharpoonup> byte list"

text \<open>
  The exceptions that the library calls and dictionary accesses of the handlers can raise.
  The payload is what \<open>str(e)\<close> prints.
\<close>

datatype exn =
    KeyError string
  | FileNotFoundError path
  | DownloadError string
  | TelegramError string
  | DatabaseError string
  | OSError string

section \<open>The configuration set by \<open>__init__\<close>\<close>

record config =
  MAX_FILE_SIZE_MB :: nat
  MAX_SEARCH_RESULTS :: nat
  RATE_LIMIT_SECONDS :: nat

definition bot_config :: config where
  "bot_config = \<lparr> MAX_FILE_SIZE_MB = 50, MAX_SEARCH_RESULTS = 5, RATE_LIMIT_SECONDS = 30 \<rparr>"

section \<open>\<open>_calculate_file_hash\<close>\<close>

text \<open>
  \<open>hashlib.md5\<close> is a library object and not part of the program; it is a parameter: a
  fresh state, the \<open>update\<close> method and the 16-byte digest read as a 128-bit word.
\<close>

record 'h hashlib_md5 =
  md5_new :: 'h
  md5_update :: "'h \<Rightarrow> byte list \<Rightarrow> 'h"
  md5_digest :: "'h \<Rightarrow> 128 word"

definition hex_char :: "nat \<Rightarrow> char" where
  "hex_char n = ''0123456789abcdef'' ! (n mod 16)"

text \<open>\<open>hexdigest()\<close>: the 32 lower-case hexadecimal digits of the digest, most significant first.\<close>

definition hexdigest :: "128 word \<Rightarrow> string" where
  "hexdigest w = map (\<lambda>i. hex_char (unat (drop_bit (4 * (31 - i)) w AND 15))) [0..<32]"

text \<open>\<open>f.read(n)\<close> on a binary file whose unread part is \<open>rest\<close>: the chunk and the new unread part.\<close>

definition f_read :: "nat \<Rightarrow> byte list \<Rightarrow> byte list \<times> byte list" where
  "f_read n rest = (take n rest, drop n rest)"

text \<open>
  The loop \<open>for chunk in iter(lambda: f.read(4096), b""): hash_md5.update(chunk)\<close>. The
  function returns the final hash state together with the chunks it has read, in order, so
  that the reads themselves can be spoken about.
\<close>

function hash_loop :: "'h hashlib_md5 \<Rightarrow> 'h \<Rightarrow> byte list \<Rightarrow> byte list list \<Rightarrow> 'h \<times> byte list list" where
  "hash_loop H h rest seen =
     (if fst (f_read 4096 rest) = [] then (h, seen)
      else hash_loop H (md5_update H h (fst (f_read 4096 rest))) (snd (f_read 4096 rest))
             (seen @ [fst (f_read 4096 rest)]))"
  by pat_completeness auto
termination
  by (relation "measure (\<lambda>(H, h, rest, seen). length rest)") (auto simp: f_read_def)

declare hash_loop.simps [simp del]

definition calculate_file_hash_reads :: "'h hashlib_md5 \<Rightarrow> files \<Rightarrow> path \<Rightarrow> exn + (string \<times> byte list list)" where
  "calculate_file_hash_reads H fs file_path =
     (case fs file_path of
        None \<Rightarrow> Inl (FileNotFoundError file_path)
      | Some content \<Rightarrow>
          (case hash_loop H (md5_new H) content [] of
             (h, seen) \<Rightarrow> Inr (hexdigest (md5_digest H h), seen)))"

definition calculate_file_hash :: "'h hashlib_md5 \<Rightarrow> files \<Rightarrow> path \<Rightarrow> exn + string" where
  "calculate_file_hash H fs file_path = map_sum id fst (calculate_file_hash_reads H fs file_path)"

section \<open>The database\<close>

text \<open>
  \<open>_init_database\<close> creates two tables. A row of \<open>users\<close> is keyed by its
  \<open>user_id INTEGER PRIMARY KEY\<close>, so the table is a map from the key to the other six
  columns. \<open>total_downloads\<close> is compared against \<open>NULL\<close> by the statements below and is
  therefore optional; the other columns are only ever written with values. \<open>downloads\<close>
  has an \<open>AUTOINCREMENT\<close> key and no uniqueness constraint: it is a list of rows in
  insertion order. SQLite does not enforce the \<open>FOREIGN KEY\<close> clause unless asked to, and
  the program never asks.
\<close>

record user_row =
  username :: string
  first_name :: string
  last_name :: string
  join_date :: time
  total_downloads :: "int option"
  last_download_date :: time

record download_row =
  download_id :: nat
  user_id :: int
  video_id :: string
  title :: string
  download_date :: time
  file_hash :: string

record database =
  users :: "int \<rightharpoonup> user_row"
  downloads :: "download_row list"

definition init_database :: database where
  "init_database = \<lparr> users = Map.empty, downloads = [] \<rparr>"

text \<open>
  The dictionaries handed to \<open>_log_user_download\<close>: \<open>update.effective_user.to_dict()\<close>,
  which always has \<open>id\<close> and may lack the names, and a search result entry, any key of which
  may be missing.
\<close>

record tg_user =
  u_id :: int
  u_username :: "string option"
  u_first_name :: "string option"
  u_last_name :: "string option"

record video =
  v_id :: "string option"
  v_title :: "string option"
  v_webpage_url :: "string option"
  v_uploader :: "string option"

text \<open>\<open>d.get(key, default)\<close>.\<close>

definition dict_get :: "'a option \<Rightarrow> 'a \<Rightarrow> 'a" where
  "dict_get v dflt = (case v of None \<Rightarrow> dflt | Some x \<Rightarrow> x)"

text \<open>
  The first statement, \<open>INSERT OR REPLACE INTO users ... VALUES (?, ?, ?, ?, ?,
  COALESCE((SELECT total_downloads + 1 FROM users WHERE user_id = ?), 1), ?)\<close>: the
  subquery is \<open>NULL\<close> when the user has no row or the stored counter is \<open>NULL\<close>. A row with
  the same key is replaced as a whole. \<open>t_join\<close> and \<open>t_last\<close> are the two
  \<open>datetime.now()\<close> readings bound to \<open>join_date\<close> and \<open>last_download_date\<close>.
\<close>

definition coalesce_total :: "database \<Rightarrow> int \<Rightarrow> int" where
  "coalesce_total db uid =
     (case users db uid of
        None \<Rightarrow> 1
      | Some r \<Rightarrow> (case total_downloads r of None \<Rightarrow> 1 | Some n \<Rightarrow> n + 1))"

definition insert_or_replace_user :: "tg_user \<Rightarrow> time \<Rightarrow> time \<Rightarrow> database \<Rightarrow> database" where
  "insert_or_replace_user user t_join t_last db =
     db\<lparr> users := (users db)(u_id user \<mapsto>
           \<lparr> username = dict_get (u_username user) '''',
             first_name = dict_get (u_first_name user) '''',
             last_name = dict_get (u_last_name user) '''',
             join_date = t_join,
             total_downloads = Some (coalesce_total db (u_id user)),
             last_download_date = t_last \<rparr>) \<rparr>"

text \<open>
  The second statement, \<open>INSERT INTO downloads (user_id, video_id, title, download_date,
  file_hash) VALUES (?, ?, ?, ?, ?)\<close>. No row of \<open>downloads\<close> is ever deleted, so the
  \<open>AUTOINCREMENT\<close> key is the number of rows so far plus one.
\<close>

definition insert_download :: "tg_user \<Rightarrow> video \<Rightarrow> time \<Rightarrow> string \<Rightarrow> database \<Rightarrow> database" where
  "insert_download user video_info t_download h db =
     db\<lparr> downloads := downloads db @
           [\<lparr> download_id = length (downloads db) + 1,
              user_id = u_id user,
              video_id = dict_get (v_id video_info) ''unknown'',
              title = dict_get (v_title video_info) ''Unknown Title'',
              download_date = t_download,
              file_hash = h \<rparr>] \<rparr>"

text \<open>
  Where the database can fail inside \<open>with sqlite3.connect(self.DB_PATH) as conn\<close>: when
  connecting, in either \<open>execute\<close>, or in \<open>conn.commit()\<close>. The connection opens a
  transaction before the first \<open>INSERT\<close>; the context manager rolls it back when the block
  is left by an exception, and nothing is committed before \<open>conn.commit()\<close>.
\<close>

datatype db_fault = ConnectFails | UsersWriteFails | DownloadsWriteFails | CommitFails

text \<open>The three clock readings of one call, in the order the source takes them.\<close>

record clock =
  now_join :: time
  now_last :: time
  now_download :: time

text \<open>
  \<open>transaction\<close> runs the body of the \<open>with\<close> block on a working copy: the result is the
  committed database, or the exception, in which case the caller keeps the database as it was.
\<close>

definition transaction ::
    "db_fault option \<Rightarrow> (database \<Rightarrow> database) \<Rightarrow> (database \<Rightarrow> database) \<Rightarrow> database \<Rightarrow> exn + database" where
  "transaction fault stmt1 stmt2 db =
     (if fault = Some ConnectFails then Inl (DatabaseError ''unable to open database file'')
      else if fault = Some UsersWriteFails then Inl (DatabaseError ''users'')
      else let db1 = stmt1 db in
        if fault = Some DownloadsWriteFails then Inl (DatabaseError ''downloads'')
        else let db2 = stmt2 db1 in
          if fault = Some CommitFails then Inl (DatabaseError ''commit'')
          else Inr db2)"

text \<open>
  \<open>_log_user_download\<close>: the hash is computed first, and an unreadable file leaves the
  database untouched. The result is the exception raised, if any, and the database after the
  call.
\<close>

definition log_user_download ::
    "'h hashlib_md5 \<Rightarrow> files \<Rightarrow> db_fault option \<Rightarrow> clock \<Rightarrow> tg_user \<Rightarrow> video \<Rightarrow> path \<Rightarrow> database
       \<Rightarrow> exn option \<times> database" where
  "log_user_download H fs fault clk user video_info file_path db =
     (case calculate_file_hash H fs file_path of
        Inl e \<Rightarrow> (Some e, db)
      | Inr h \<Rightarrow>
          (case transaction fault
                  (insert_or_replace_user user (now_join clk) (now_last clk))
                  (insert_download user video_info (now_download clk) h) db of
             Inl e \<Rightarrow> (Some e, db)
           | Inr db' \<Rightarrow> (None, db')))"

text \<open>
  The \<open>stats\<close> branch of \<open>callback_handler\<close> runs \<open>SELECT total_downloads,
  last_download_date, (SELECT COUNT(*) FROM downloads WHERE user_id = ?) as unique_downloads
  FROM users WHERE user_id = ?\<close>; \<open>fetchone()\<close> is \<open>None\<close> when the user has no row.
\<close>

definition count_downloads :: "database \<Rightarrow> int \<Rightarrow> nat" where
  "count_downloads db uid = length (filter (\<lambda>d. user_id d = uid) (downloads db))"

definition stats_query :: "database \<Rightarrow> int \<Rightarrow> (int option \<times> time \<times> nat) option" where
  "stats_query db uid =
     (case users db uid of
        None \<Rightarrow> None
      | Some r \<Rightarrow> Some (total_downloads r, last_download_date r, count_downloads db uid))"

section \<open>What the handlers say and do\<close>

text \<open>
  The states of the \<open>ConversationHandler\<close>: the two of the class and
  \<open>ConversationHandler.END\<close>, which ends the conversation.
\<close>

datatype conv_state = SEARCH_QUERY | SELECT_RESULT | END

text \<open>
  A button of the result keyboard carries its label and its \<open>callback_data\<close>;
  \<open>CancelButton\<close> is the last button, labelled \<open>Annuler\<close>, with \<open>callback_data="cancel"\<close>.
\<close>

datatype button = ResultButton string string | CancelButton

text \<open>
  The texts shown to the user, in the order of the source: the three of \<open>callback_handler\<close>
  and its \<open>Aucune statistique disponible\<close>, then those of \<open>search_audio\<close>
  (\<open>Recherche en cours\<close>, \<open>Aucun resultat trouve\<close>, the result keyboard, \<open>Erreur lors de la
  recherche\<close>), then those of \<open>select_and_download\<close> (\<open>Recherche annulee\<close>, \<open>Selection
  invalide\<close>, \<open>Video non trouvee\<close>, \<open>Telechargement en cours : title\<close>, \<open>Telecharge :
  title\<close>, \<open>Erreur : str(e)\<close>). \<open>MsgStats\<close> carries the three numbers it prints: total
  downloads, unique files, last download.
\<close>

datatype msg =
    MsgAskQuery
  | MsgHelp
  | MsgStats int nat time
  | MsgNoStats
  | MsgSearching
  | MsgNoResults
  | MsgResults "button list"
  | MsgSearchError
  | MsgCancelled
  | MsgInvalidSelection
  | MsgVideoNotFound
  | MsgDownloading string
  | MsgDownloaded string
  | MsgError exn

text \<open>
  The calls a handler makes on its collaborators, recorded in order when they are made,
  whether or not they then raise: \<open>query.answer()\<close>, \<open>query.edit_message_text\<close>,
  \<open>update.message.reply_text\<close>, \<open>search_message.delete()\<close>, \<open>ydl.extract_info(arg,
  download)\<close>, \<open>send_audio\<close> with the bytes of the opened file, its title and performer,
  \<open>logger.error\<close> and \<open>os.remove\<close>.
\<close>

datatype effect =
    Answer
  | EditMessageText msg
  | ReplyText msg
  | DeleteMessage
  | ExtractInfo string bool
  | SendAudio "byte list" string string
  | LoggerError exn
  | OsRemove path

text \<open>
  The state a handler works on: the files on disk, the database, the entry
  \<open>search_results\<close> of the user's \<open>context.user_data\<close> (absent until a search stores it) and
  the calls made so far.
\<close>

record world =
  disk :: files
  db :: database
  search_results :: "video list option"
  trace :: "effect list"

definition emit :: "effect \<Rightarrow> world \<Rightarrow> world" where
  "emit e w = w\<lparr> trace := trace w @ [e] \<rparr>"

text \<open>
  What \<open>ydl.extract_info(url, download=True)\<close> leaves behind when it returns: the name
  \<open>ydl.prepare_filename(info)\<close> computes from the returned info, and the file that download
  and post-processing wrote, if any (none when the size cap made yt-dlp skip the download).
\<close>

record fetched =
  prepared_filename :: path
  written :: "(path \<times> byte list) option"

text \<open>
  What \<open>ydl.extract_info("ytsearchN:query", download=False)\<close> returns: \<open>None\<close>, or a
  dictionary that has the key \<open>entries\<close> or not.
\<close>

datatype search_info = NoneInfo | InfoDict "video list option"

text \<open>
  The collaborators of one handler call. The text calls of the messaging transport
  (\<open>answer\<close>, \<open>edit_message_text\<close>, \<open>reply_text\<close>) are taken to succeed; every other
  call has its failure here.
\<close>

record 'h environment =
  hashlib :: "'h hashlib_md5"
  extract_info_search :: "string \<Rightarrow> exn + search_info"
  extract_info_download :: "string \<Rightarrow> exn + fetched"
  send_audio_fault :: "exn option"
  database_fault :: "db_fault option"
  remove_fault :: "exn option"
  clk :: clock

section \<open>Strings\<close>

text \<open>\<open>str(n)\<close> for a natural number: its decimal digits.\<close>

definition digit_char :: "nat \<Rightarrow> char" where
  "digit_char n = ''0123456789'' ! (n mod 10)"

fun str_nat :: "nat \<Rightarrow> string" where
  "str_nat n = (if n < 10 then [digit_char n] else str_nat (n div 10) @ [digit_char (n mod 10)])"

declare str_nat.simps [simp del]

text \<open>
  \<open>re.match(r'select_video_(\d+)', data)\<close> followed by \<open>int(match.group(1))\<close>: the pattern
  is anchored at the start only, and \<open>\d+\<close> takes the longest run of digits. The digits
  are the ASCII ones.
\<close>

definition is_digit :: "char \<Rightarrow> bool" where
  "is_digit c = (c \<in> set ''0123456789'')"

definition digit_value :: "char \<Rightarrow> nat" where
  "digit_value c = (of_char c :: nat) - 48"

definition int_of_digits :: "string \<Rightarrow> nat" where
  "int_of_digits ds = foldl (\<lambda>a c. 10 * a + digit_value c) 0 ds"

definition match_select :: "string \<Rightarrow> nat option" where
  "match_select data =
     (if take 13 data = ''select_video_'' \<and> takeWhile is_digit (drop 13 data) \<noteq> []
      then Some (int_of_digits (takeWhile is_digit (drop 13 data)))
      else None)"

text \<open>
  \<open>s.replace(old, new)\<close> for a non-empty \<open>old\<close>: every occurrence, left to right, without
  overlap. The program calls it with \<open>'.webm'\<close> only.
\<close>

function str_replace :: "string \<Rightarrow> string \<Rightarrow> string \<Rightarrow> string" where
  "str_replace old new [] = []"
| "str_replace old new (c # cs) =
     (if old \<noteq> [] \<and> take (length old) (c # cs) = old
      then new @ str_replace old new (drop (length old) (c # cs))
      else c # str_replace old new cs)"
  by pat_completeness auto
termination
  by (relation "measure (\<lambda>(old, new, s). length s)") auto

section \<open>\<open>callback_handler\<close>\<close>

text \<open>\<open>x or 0\<close> for a column that may be \<open>NULL\<close>.\<close>

definition or_zero :: "int option \<Rightarrow> int" where
  "or_zero x = (case x of None \<Rightarrow> 0 | Some n \<Rightarrow> n)"

text \<open>
  The handler of the three menu buttons. It returns \<open>SEARCH_QUERY\<close> for \<open>search\<close> and
  nothing (\<open>None\<close>) otherwise. The statistics text prints \<open>stats[0] or 0\<close>, \<open>stats[2] or 0\<close>
  and \<open>stats[1]\<close>.
\<close>

definition callback_handler :: "tg_user \<Rightarrow> string \<Rightarrow> world \<Rightarrow> conv_state option \<times> world" where
  "callback_handler user data w0 =
     (let w = emit Answer w0 in
      if data = ''search'' then (Some SEARCH_QUERY, emit (EditMessageText MsgAskQuery) w)
      else if data = ''help'' then (None, emit (EditMessageText MsgHelp) w)
      else if data = ''stats'' then
        (case stats_query (db w) (u_id user) of
           Some (n_total, t_last, n_unique) \<Rightarrow>
             (None, emit (EditMessageText (MsgStats (or_zero n_total) n_unique t_last)) w)
         | None \<Rightarrow> (None, emit (EditMessageText MsgNoStats) w))
      else (None, w))"

section \<open>\<open>search_audio\<close>\<close>

text \<open>
  The keyboard loop \<open>for i, video in enumerate(entries[:MAX], 1)\<close>: the label is
  \<open>f"{i}. {video['title'][:50]}..."\<close> and the data \<open>f"select_video_{i-1}"\<close>; an entry without
  \<open>title\<close> raises \<open>KeyError\<close>. \<open>result_buttons i vs\<close> is the loop from counter \<open>i\<close> on.
\<close>

fun result_buttons :: "nat \<Rightarrow> video list \<Rightarrow> exn + button list" where
  "result_buttons i [] = Inr []"
| "result_buttons i (v # vs) =
     (case v_title v of
        None \<Rightarrow> Inl (KeyError ''title'')
      | Some t \<Rightarrow>
          (case result_buttons (i + 1) vs of
             Inl e \<Rightarrow> Inl e
           | Inr bs \<Rightarrow>
               Inr (ResultButton (str_nat i @ ''. '' @ take 50 t @ ''...'')
                      (''select_video_'' @ str_nat (i - 1)) # bs)))"

definition search_request :: "config \<Rightarrow> string \<Rightarrow> string" where
  "search_request cfg query = ''ytsearch'' @ str_nat (MAX_SEARCH_RESULTS cfg) @ '':'' @ query"

text \<open>
  The \<open>try\<close> block of \<open>search_audio\<close>: the state returned, or the exception that leaves the
  block, with the world at that point.
\<close>

definition search_body :: "config \<Rightarrow> 'h environment \<Rightarrow> string \<Rightarrow> world \<Rightarrow> (exn + conv_state) \<times> world" where
  "search_body cfg E query w0 =
     (let w = emit (ExtractInfo (search_request cfg query) False) w0 in
      case extract_info_search E (search_request cfg query) of
        Inl e \<Rightarrow> (Inl e, w)
      | Inr reply \<Rightarrow>
          (let w1 = emit DeleteMessage w in
           case reply of
             NoneInfo \<Rightarrow> (Inr END, emit (ReplyText MsgNoResults) w1)
           | InfoDict None \<Rightarrow> (Inr END, emit (ReplyText MsgNoResults) w1)
           | InfoDict (Some entries) \<Rightarrow>
               (case result_buttons 1 (take (MAX_SEARCH_RESULTS cfg) entries) of
                  Inl e \<Rightarrow> (Inl e, w1)
                | Inr keyboard \<Rightarrow>
                    (Inr SELECT_RESULT,
                     emit (ReplyText (MsgResults (keyboard @ [CancelButton])))
                       (w1\<lparr> search_results := Some entries \<rparr>)))))"

text \<open>
  \<open>search_audio\<close>: the waiting message, the \<open>try\<close> block, and the \<open>except\<close> clause, which
  tries to delete the waiting message, logs, and tells the user.
\<close>

definition search_audio :: "config \<Rightarrow> 'h environment \<Rightarrow> string \<Rightarrow> world \<Rightarrow> conv_state \<times> world" where
  "search_audio cfg E query w0 =
     (case search_body cfg E query (emit (ReplyText MsgSearching) w0) of
        (Inr st, w) \<Rightarrow> (st, w)
      | (Inl e, w) \<Rightarrow>
          (END, emit (ReplyText MsgSearchError) (emit (LoggerError e) (emit DeleteMessage w))))"

section \<open>\<open>select_and_download\<close>\<close>

text \<open>
  The steps of the \<open>try\<close> block, last first. Each returns the state the handler returns,
  or the exception that leaves the block, with the world at that point.

  After the audio is sent: \<open>_log_user_download\<close>, then \<open>os.remove(file_path)\<close>, then the
  final message.
\<close>

definition log_and_clean ::
    "'h environment \<Rightarrow> tg_user \<Rightarrow> video \<Rightarrow> string \<Rightarrow> path \<Rightarrow> world \<Rightarrow> (exn + conv_state) \<times> world" where
  "log_and_clean E user video ttl file_path w =
     (case log_user_download (hashlib E) (disk w) (database_fault E) (clk E) user video file_path (db w) of
        (Some e, db') \<Rightarrow> (Inl e, w\<lparr> db := db' \<rparr>)
      | (None, db') \<Rightarrow>
          (let w1 = emit (OsRemove file_path) (w\<lparr> db := db' \<rparr>) in
           case remove_fault E of
             Some e \<Rightarrow> (Inl e, w1)
           | None \<Rightarrow>
               (Inr END,
                emit (EditMessageText (MsgDownloaded ttl))
                  (w1\<lparr> disk := (disk w1)(file_path := None) \<rparr>))))"

text \<open>
  \<open>with open(file_path, 'rb') as audio: send_audio(audio, title=video['title'],
  performer=video.get('uploader', 'Unknown'))\<close>.
\<close>

definition open_and_send ::
    "'h environment \<Rightarrow> tg_user \<Rightarrow> video \<Rightarrow> string \<Rightarrow> path \<Rightarrow> world \<Rightarrow> (exn + conv_state) \<times> world" where
  "open_and_send E user video ttl file_path w =
     (case disk w file_path of
        None \<Rightarrow> (Inl (FileNotFoundError file_path), w)
      | Some content \<Rightarrow>
          (let w1 = emit (SendAudio content ttl (dict_get (v_uploader video) ''Unknown'')) w in
           case send_audio_fault E of
             Some e \<Rightarrow> (Inl e, w1)
           | None \<Rightarrow> log_and_clean E user video ttl file_path w1))"

text \<open>
  \<open>info = ydl.extract_info(video['webpage_url'], download=True)\<close> and
  \<open>file_path = ydl.prepare_filename(info).replace('.webm', '.mp3')\<close>.
\<close>

definition write_file :: "(path \<times> byte list) option \<Rightarrow> files \<Rightarrow> files" where
  "write_file f fs = (case f of None \<Rightarrow> fs | Some (p, content) \<Rightarrow> fs(p \<mapsto> content))"

definition fetch ::
    "'h environment \<Rightarrow> tg_user \<Rightarrow> video \<Rightarrow> string \<Rightarrow> world \<Rightarrow> (exn + conv_state) \<times> world" where
  "fetch E user video ttl w =
     (case v_webpage_url video of
        None \<Rightarrow> (Inl (KeyError ''webpage_url''), w)
      | Some url \<Rightarrow>
          (let w1 = emit (ExtractInfo url True) w in
           case extract_info_download E url of
             Inl e \<Rightarrow> (Inl e, w1)
           | Inr info \<Rightarrow>
               open_and_send E user video ttl
                 (str_replace ''.webm'' ''.mp3'' (prepared_filename info))
                 (w1\<lparr> disk := write_file (written info) (disk w1) \<rparr>)))"

text \<open>
  The start of the \<open>try\<close> block: the pattern match, the bound check
  \<open>index >= len(search_results)\<close> on \<open>context.user_data.get('search_results', [])\<close>, and
  the message that the download has started.
\<close>

definition download_body ::
    "'h environment \<Rightarrow> tg_user \<Rightarrow> string \<Rightarrow> world \<Rightarrow> (exn + conv_state) \<times> world" where
  "download_body E user data w =
     (case match_select data of
        None \<Rightarrow> (Inr END, emit (EditMessageText MsgInvalidSelection) w)
      | Some index \<Rightarrow>
          (let results = dict_get (search_results w) [] in
           if index \<ge> length results then (Inr END, emit (EditMessageText MsgVideoNotFound) w)
           else
             (case v_title (results ! index) of
                None \<Rightarrow> (Inl (KeyError ''title''), w)
              | Some ttl \<Rightarrow>
                  fetch E user (results ! index) ttl (emit (EditMessageText (MsgDownloading ttl)) w))))"

text \<open>
  \<open>select_and_download\<close>: \<open>cancel\<close> is handled before the \<open>try\<close>; the \<open>except\<close> clause
  logs the exception and shows it to the user. Every path returns
  \<open>ConversationHandler.END\<close>.
\<close>

definition select_and_download :: "'h environment \<Rightarrow> tg_user \<Rightarrow> string \<Rightarrow> world \<Rightarrow> conv_state \<times> world" where
  "select_and_download E user data w0 =
     (let w = emit Answer w0 in
      if data = ''cancel'' then (END, emit (EditMessageText MsgCancelled) w)
      else
        (case download_body E user data w of
           (Inr st, w') \<Rightarrow> (st, w')
         | (Inl e, w') \<Rightarrow> (END, emit (EditMessageText (MsgError e)) (emit (LoggerError e) w'))))"

section \<open>Notions used to state the properties\<close>

text \<open>
  A recorded download is one call of \<open>_log_user_download\<close> with its arguments and the
  circumstances it runs in; \<open>run_log_calls\<close> performs a sequence of them on a database.
\<close>

record 'h log_call =
  call_md5 :: "'h hashlib_md5"
  call_disk :: files
  call_fault :: "db_fault option"
  call_clock :: clock
  call_user :: tg_user
  call_video :: video
  call_path :: path

definition log_call_on :: "'h log_call \<Rightarrow> database \<Rightarrow> exn option \<times> database" where
  "log_call_on c d =
     log_user_download (call_md5 c) (call_disk c) (call_fault c) (call_clock c)
       (call_user c) (call_video c) (call_path c) d"

fun run_log_calls :: "'h log_call list \<Rightarrow> database \<Rightarrow> database" where
  "run_log_calls [] d = d"
| "run_log_calls (c # cs) d = run_log_calls cs (snd (log_call_on c d))"

text \<open>
  The counter of a user agrees with the \<open>downloads\<close> table: a user without a row has no
  download rows, and a stored counter is the number of the user's download rows.
\<close>

definition counter_matches :: "database \<Rightarrow> int \<Rightarrow> bool" where
  "counter_matches d uid =
     (case users d uid of
        None \<Rightarrow> count_downloads d uid = 0
      | Some r \<Rightarrow> total_downloads r = Some (int (count_downloads d uid)))"

text \<open>The distinct content fingerprints among the download rows of a user.\<close>

definition fingerprints :: "database \<Rightarrow> int \<Rightarrow> string set" where
  "fingerprints d uid = set (map file_hash (filter (\<lambda>r. user_id r = uid) (downloads d)))"

text \<open>The calls of a trace that fetch (\<open>extract_info\<close> with \<open>download=True\<close>).\<close>

fun is_fetch :: "effect \<Rightarrow> bool" where
  "is_fetch (ExtractInfo arg download) = download"
| "is_fetch e = False"

definition fetches :: "world \<Rightarrow> effect list" where
  "fetches w = filter is_fetch (trace w)"

text \<open>The texts a trace shows to the user, in order.\<close>

fun shown_text :: "effect \<Rightarrow> msg list" where
  "shown_text (EditMessageText m) = [m]"
| "shown_text (ReplyText m) = [m]"
| "shown_text e = []"

definition shown :: "world \<Rightarrow> msg list" where
  "shown w = concat (map shown_text (trace w))"

text \<open>\<open>str(i)\<close> for an integer, and the callback data that names index \<open>i\<close>.\<close>

definition str_int :: "int \<Rightarrow> string" where
  "str_int i = (if i < 0 then CHR ''-'' # str_nat (nat (- i)) else str_nat (nat i))"

definition selection_data :: "int \<Rightarrow> string" where
  "selection_data i = ''select_video_'' @ str_int i"

text \<open>The labels of a keyboard, and the titles of a candidate list.\<close>

fun button_label :: "button \<Rightarrow> string list" where
  "button_label (ResultButton label data) = [label]"
| "button_label CancelButton = []"


section \<open>Concrete inputs\<close>

text \<open>
  A small hash object to run the functions on: its state is the number of bytes seen. A
  user, a search result entry and the bytes of its audio file; a second entry for lists of
  several candidates.
\<close>

definition count_md5 :: "nat hashlib_md5" where
  "count_md5 = \<lparr> md5_new = 0, md5_update = (\<lambda>h chunk. h + length chunk),
                  md5_digest = (\<lambda>h. of_nat h) \<rparr>"

definition alice :: tg_user where
  "alice = \<lparr> u_id = 7, u_username = Some ''alice'', u_first_name = Some ''Alice'',
             u_last_name = None \<rparr>"

definition song :: video where
  "song = \<lparr> v_id = Some ''abc'', v_title = Some ''Song'',
            v_webpage_url = Some ''https://youtu.be/abc'', v_uploader = None \<rparr>"

definition tune :: video where
  "tune = \<lparr> v_id = Some ''xyz'', v_title = Some ''Tune'',
            v_webpage_url = Some ''https://youtu.be/xyz'', v_uploader = Some ''Band'' \<rparr>"

definition song_bytes :: "byte list" where
  "song_bytes = [1, 2, 3]"

definition clock_at :: "time \<Rightarrow> clock" where
  "clock_at t = \<lparr> now_join = t, now_last = t, now_download = t \<rparr>"

text \<open>
  Collaborators that all succeed at clock reading \<open>t\<close>: the search returns the two entries,
  the download writes \<open>downloads/abc.mp3\<close> and reports the name \<open>downloads/abc.webm\<close>.
\<close>

definition env_ok :: "time \<Rightarrow> nat environment" where
  "env_ok t =
     \<lparr> hashlib = count_md5,
       extract_info_search = (\<lambda>request. Inr (InfoDict (Some [song, tune]))),
       extract_info_download = (\<lambda>url. Inr \<lparr> prepared_filename = ''downloads/abc.webm'',
                                            written = Some (''downloads/abc.mp3'', song_bytes) \<rparr>),
       send_audio_fault = None,
       database_fault = None,
       remove_fault = None,
       clk = clock_at t \<rparr>"

text \<open>A fresh installation, and one in which the user has just been shown the two results.\<close>

definition world_fresh :: world where
  "world_fresh = \<lparr> disk = Map.empty, db = init_database, search_results = None, trace = [] \<rparr>"

definition world_searched :: world where
  "world_searched = world_fresh\<lparr> search_results := Some [song, tune] \<rparr>"

definition call_ok :: "time \<Rightarrow> nat log_call" where
  "call_ok t =
     \<lparr> call_md5 = count_md5, call_disk = [''downloads/abc.mp3'' \<mapsto> song_bytes],
       call_fault = None, call_clock = clock_at t, call_user = alice, call_video = song,
       call_path = ''downloads/abc.mp3'' \<rparr>"

text \<open>The two statements of the transaction of \<open>_log_user_download\<close>, one after the other.\<close>

definition both_statements :: "clock \<Rightarrow> tg_user \<Rightarrow> video \<Rightarrow> string \<Rightarrow> database \<Rightarrow> database" where
  "both_statements ck user v h d =
     insert_download user v (now_download ck) h
       (insert_or_replace_user user (now_join ck) (now_last ck) d)"

text \<open>
  The result \<open>r\<close> of a handler started in world \<open>w\<close> is a rejected selection: the
  conversation ends, the only calls made are \<open>query.answer()\<close> and one of the two texts
  for an invalid selection, nothing else of the world changes, and no fetch is made.
\<close>

definition rejected :: "world \<Rightarrow> conv_state \<times> world \<Rightarrow> bool" where
  "rejected w r =
     (fst r = END \<and>
      (snd r = w\<lparr> trace := trace w @ [Answer, EditMessageText MsgInvalidSelection] \<rparr> \<or>
       snd r = w\<lparr> trace := trace w @ [Answer, EditMessageText MsgVideoNotFound] \<rparr>) \<and>
      fetches (snd r) = fetches w)"


definition env_search :: "video list \<Rightarrow> nat environment" where
  "env_search entries =
     (env_ok 100)\<lparr> extract_info_search := (\<lambda>request. Inr (InfoDict (Some entries))) \<rparr>"

text \<open>
  Two download attempts of one user five seconds apart: the first selection at clock
  reading 100, then the search button, a new search at 103, and a second selection at 105.
\<close>

definition two_attempts :: world where
  "two_attempts =
     (let w1 = snd (select_and_download (env_ok 100) alice ''select_video_0'' world_searched);
          w2 = snd (callback_handler alice ''search'' w1);
          w3 = snd (search_audio bot_config (env_ok 103) ''lofi'' w2)
      in snd (select_and_download (env_ok 105) alice ''select_video_0'' w3))"

section \<open>The content fingerprint\<close>

lemma hash_loop_reads:
  "\<exists>cs. snd (hash_loop H h rest seen) = seen @ cs \<and> concat cs = rest \<and>
        (\<forall>c \<in> set cs. 0 < length c \<and> length c \<le> 4096)"
proof (induction H h rest seen rule: hash_loop.induct)
  case (1 H h rest seen)
  show ?case
  proof (cases "fst (f_read 4096 rest) = []")
    case True
    then have "rest = []" by (simp add: f_read_def)
    with True show ?thesis by (subst hash_loop.simps) simp
  next
    case False
    from "1.IH"[OF False] obtain cs where
      cs: "snd (hash_loop H (md5_update H h (fst (f_read 4096 rest))) (snd (f_read 4096 rest))
             (seen @ [fst (f_read 4096 rest)])) = (seen @ [fst (f_read 4096 rest)]) @ cs"
        "concat cs = snd (f_read 4096 rest)"
        "\<forall>c \<in> set cs. 0 < length c \<and> length c \<le> 4096"
      by blast
    let ?cs = "fst (f_read 4096 rest) # cs"
    have "snd (hash_loop H h rest seen) = seen @ ?cs"
      using False cs(1) by (subst hash_loop.simps) simp
    moreover have "concat ?cs = rest" using cs(2) by (simp add: f_read_def)
    moreover have "\<forall>c \<in> set ?cs. 0 < length c \<and> length c \<le> 4096"
      using cs(3) False by (auto simp: f_read_def)
    ultimately show ?thesis by blast
  qed
qed

lemma length_hexdigest: "length (hexdigest w) = 32"
  by (simp add: hexdigest_def)

lemma hex_char_in: "hex_char n \<in> set ''0123456789abcdef''"
  unfolding hex_char_def by (rule nth_mem) simp

lemma set_hexdigest: "set (hexdigest w) \<subseteq> set ''0123456789abcdef''"
  unfolding hexdigest_def using hex_char_in by auto

lemma calculate_file_hash_reads_Some:
  assumes "fs p = Some content"
  shows "\<exists>reads. calculate_file_hash_reads H fs p =
            Inr (hexdigest (md5_digest H (fst (hash_loop H (md5_new H) content []))), reads) \<and>
          concat reads = content \<and> (\<forall>c \<in> set reads. 0 < length c \<and> length c \<le> 4096)"
proof -
  obtain cs where cs: "snd (hash_loop H (md5_new H) content []) = [] @ cs" "concat cs = content"
      "\<forall>c \<in> set cs. 0 < length c \<and> length c \<le> 4096"
    using hash_loop_reads[of H "md5_new H" content "[]"] by blast
  have "calculate_file_hash_reads H fs p =
      Inr (hexdigest (md5_digest H (fst (hash_loop H (md5_new H) content []))), cs)"
    using assms cs(1) by (auto simp: calculate_file_hash_reads_def split: prod.split)
  with cs(2,3) show ?thesis by blast
qed

text \<open>
  Claim C8. \<open>_calculate_file_hash\<close>, applied to a readable file, reads it in chunks of at
  most 4096 bytes, never empty, that together are the file's content, and returns the 32
  hexadecimal digits of a 128-bit digest; two files with the same bytes, wherever they are
  stored, get the same digest.
\<close>

theorem file_hash_chunked_and_deterministic:
  assumes "fs1 p1 = Some content" and "fs2 p2 = Some content"
  shows "calculate_file_hash H fs1 p1 = calculate_file_hash H fs2 p2 \<and>
         (\<exists>digest reads.
            calculate_file_hash_reads H fs1 p1 = Inr (digest, reads) \<and>
            calculate_file_hash H fs1 p1 = Inr digest \<and>
            length digest = 32 \<and> set digest \<subseteq> set ''0123456789abcdef'' \<and>
            concat reads = content \<and>
            (\<forall>c \<in> set reads. 0 < length c \<and> length c \<le> 4096))"
proof -
  let ?d = "hexdigest (md5_digest H (fst (hash_loop H (md5_new H) content [])))"
  obtain r1 where r1: "calculate_file_hash_reads H fs1 p1 = Inr (?d, r1)" "concat r1 = content"
      "\<forall>c \<in> set r1. 0 < length c \<and> length c \<le> 4096"
    using calculate_file_hash_reads_Some[of fs1 p1 content H] assms(1) by blast
  obtain r2 where r2: "calculate_file_hash_reads H fs2 p2 = Inr (?d, r2)"
    using calculate_file_hash_reads_Some[of fs2 p2 content H] assms(2) by blast
  have "calculate_file_hash H fs1 p1 = Inr ?d" "calculate_file_hash H fs2 p2 = Inr ?d"
    using r1(1) r2 by (simp_all add: calculate_file_hash_def)
  with r1 show ?thesis
    using length_hexdigest[of "md5_digest H (fst (hash_loop H (md5_new H) content []))"]
      set_hexdigest[of "md5_digest H (fst (hash_loop H (md5_new H) content []))"]
    by auto
qed


lemma eval_hash_song:
  "calculate_file_hash_reads count_md5 [''copy.mp3'' \<mapsto> song_bytes] ''copy.mp3'' =
     Inr (''00000000000000000000000000000003'', [song_bytes])"
  by code_simp

theorem file_hash_chunked_and_deterministic_witness:
  "calculate_file_hash count_md5 [''downloads/abc.mp3'' \<mapsto> song_bytes] ''downloads/abc.mp3'' =
     calculate_file_hash count_md5 [''copy.mp3'' \<mapsto> song_bytes] ''copy.mp3'' \<and>
   calculate_file_hash_reads count_md5 [''copy.mp3'' \<mapsto> song_bytes] ''copy.mp3'' =
     Inr (''00000000000000000000000000000003'', [song_bytes])"
proof -
  have h1: "[''downloads/abc.mp3'' \<mapsto> song_bytes] ''downloads/abc.mp3'' = Some song_bytes"
    by simp
  have h2: "[''copy.mp3'' \<mapsto> song_bytes] ''copy.mp3'' = Some song_bytes"
    by simp
  from file_hash_chunked_and_deterministic[of "[''downloads/abc.mp3'' \<mapsto> song_bytes]"
      "''downloads/abc.mp3''" song_bytes "[''copy.mp3'' \<mapsto> song_bytes]" "''copy.mp3''" count_md5]
    h1 h2 eval_hash_song
  show ?thesis by blast
qed

section \<open>The download counter\<close>

lemma users_insert_download [simp]: "users (insert_download user v t h d) = users d"
  by (simp add: insert_download_def)

lemma downloads_insert_or_replace_user [simp]:
  "downloads (insert_or_replace_user user t1 t2 d) = downloads d"
  by (simp add: insert_or_replace_user_def)

lemma count_downloads_insert_or_replace_user [simp]:
  "count_downloads (insert_or_replace_user user t1 t2 d) uid = count_downloads d uid"
  by (simp add: count_downloads_def)

lemma count_downloads_insert_download:
  "count_downloads (insert_download user v t h d) uid =
     count_downloads d uid + (if uid = u_id user then 1 else 0)"
  by (simp add: count_downloads_def insert_download_def)

lemma transaction_cases:
  "transaction fault s1 s2 d = Inr d' \<Longrightarrow> d' = s2 (s1 d)"
  by (auto simp: transaction_def Let_def split: if_splits)

lemma log_user_download_cases:
  "(\<exists>e. log_user_download H fs fault ck user v p d = (Some e, d)) \<or>
   (\<exists>h. log_user_download H fs fault ck user v p d = (None, both_statements ck user v h d))"
proof (cases "calculate_file_hash H fs p")
  case (Inl e)
  then show ?thesis by (simp add: log_user_download_def)
next
  case (Inr h)
  show ?thesis
  proof (cases "transaction fault (insert_or_replace_user user (now_join ck) (now_last ck))
                  (insert_download user v (now_download ck) h) d")
    case (Inl e)
    with Inr show ?thesis by (simp add: log_user_download_def)
  next
    case (Inr d')
    from transaction_cases[OF this] Inr \<open>calculate_file_hash H fs p = Inr h\<close>
    show ?thesis by (auto simp: log_user_download_def both_statements_def)
  qed
qed

lemma users_both_statements:
  "users (both_statements ck user v h d) =
     (users d)(u_id user \<mapsto>
        \<lparr> username = dict_get (u_username user) '''',
          first_name = dict_get (u_first_name user) '''',
          last_name = dict_get (u_last_name user) '''',
          join_date = now_join ck,
          total_downloads = Some (coalesce_total d (u_id user)),
          last_download_date = now_last ck \<rparr>)"
  by (simp add: both_statements_def insert_or_replace_user_def)

lemma count_both_statements:
  "count_downloads (both_statements ck user v h d) uid =
     count_downloads d uid + (if uid = u_id user then 1 else 0)"
  by (simp add: both_statements_def count_downloads_insert_download)

lemma coalesce_total_matches:
  "counter_matches d uid \<Longrightarrow> coalesce_total d uid = int (count_downloads d uid) + 1"
  by (auto simp: counter_matches_def coalesce_total_def split: option.splits)

lemma counter_matches_both_statements:
  assumes "\<forall>u. counter_matches d u"
  shows "counter_matches (both_statements ck user v h d) uid"
proof (cases "uid = u_id user")
  case True
  with assms coalesce_total_matches[of d uid] show ?thesis
    by (simp add: counter_matches_def users_both_statements count_both_statements)
next
  case False
  with assms have "counter_matches d uid" by blast
  with False show ?thesis
    by (auto simp: counter_matches_def users_both_statements count_both_statements
        split: option.splits)
qed

lemma counter_matches_log_user_download:
  assumes "\<forall>u. counter_matches d u"
  shows "counter_matches (snd (log_user_download H fs fault ck user v p d)) uid"
  using log_user_download_cases[of H fs fault ck user v p d] assms
    counter_matches_both_statements[OF assms]
  by auto

lemma counter_matches_init: "counter_matches init_database uid"
  by (simp add: counter_matches_def init_database_def count_downloads_def)

lemma counter_matches_run:
  "\<forall>u. counter_matches d u \<Longrightarrow> counter_matches (run_log_calls cs d) uid"
proof (induction cs arbitrary: d uid)
  case Nil
  then show ?case by simp
next
  case (Cons c cs)
  have "\<forall>u. counter_matches (snd (log_call_on c d)) u"
    by (simp add: log_call_on_def counter_matches_log_user_download[OF Cons.prems])
  from Cons.IH[OF this] show ?case by simp
qed

lemma log_failure_rolls_back:
  "fst (log_user_download H fs fault ck user v p d) \<noteq> None \<Longrightarrow>
   snd (log_user_download H fs fault ck user v p d) = d"
  using log_user_download_cases[of H fs fault ck user v p d] by auto

lemma log_success_updates_both:
  assumes "fst (log_user_download H fs fault ck user v p d) = None"
  shows "count_downloads (snd (log_user_download H fs fault ck user v p d)) (u_id user) =
           count_downloads d (u_id user) + 1 \<and>
         (\<exists>r. users (snd (log_user_download H fs fault ck user v p d)) (u_id user) = Some r \<and>
              total_downloads r = Some (coalesce_total d (u_id user)))"
  using log_user_download_cases[of H fs fault ck user v p d] assms
  by (auto simp: users_both_statements count_both_statements)

text \<open>
  Claim C1. After any sequence of calls of \<open>_log_user_download\<close> on the database that
  \<open>_init_database\<close> creates, whatever each call's outcome, the counter stored for a user is
  the number of rows of \<open>downloads\<close> for that user (and a user without a row has none). The
  agreement is kept by every single call from any database in which it holds. A call is one
  transaction: when it raises the database is as before, and when it returns it has added
  one download row for the user and stored the user's counter.
\<close>

theorem counter_equals_download_rows:
  "counter_matches (run_log_calls cs init_database) uid \<and>
   ((\<forall>u. counter_matches d u) \<longrightarrow> (\<forall>u. counter_matches (snd (log_call_on c d)) u)) \<and>
   (fst (log_call_on c d) \<noteq> None \<longrightarrow> snd (log_call_on c d) = d) \<and>
   (fst (log_call_on c d) = None \<longrightarrow>
      count_downloads (snd (log_call_on c d)) (u_id (call_user c)) =
        count_downloads d (u_id (call_user c)) + 1 \<and>
      (\<exists>r. users (snd (log_call_on c d)) (u_id (call_user c)) = Some r \<and>
           total_downloads r = Some (coalesce_total d (u_id (call_user c)))))"
proof (intro conjI impI allI)
  show "counter_matches (run_log_calls cs init_database) uid"
    by (rule counter_matches_run) (simp add: counter_matches_init)
next
  fix u assume "\<forall>u. counter_matches d u"
  then show "counter_matches (snd (log_call_on c d)) u"
    unfolding log_call_on_def by (rule counter_matches_log_user_download)
next
  assume "fst (log_call_on c d) \<noteq> None"
  then show "snd (log_call_on c d) = d"
    unfolding log_call_on_def by (rule log_failure_rolls_back)
next
  assume a: "fst (log_call_on c d) = None"
  from log_success_updates_both[OF a[unfolded log_call_on_def]]
  show "count_downloads (snd (log_call_on c d)) (u_id (call_user c)) =
        count_downloads d (u_id (call_user c)) + 1"
    unfolding log_call_on_def by blast
next
  assume a: "fst (log_call_on c d) = None"
  from log_success_updates_both[OF a[unfolded log_call_on_def]]
  show "\<exists>r. users (snd (log_call_on c d)) (u_id (call_user c)) = Some r \<and>
           total_downloads r = Some (coalesce_total d (u_id (call_user c)))"
    unfolding log_call_on_def by blast
qed

lemma eval_call_ok: "fst (log_call_on (call_ok 100) init_database) = None"
  by code_simp

lemma eval_call_commit_fails:
  "fst (log_call_on ((call_ok 105)\<lparr> call_fault := Some CommitFails \<rparr>) init_database) \<noteq> None"
  by code_simp

lemma eval_two_calls:
  "count_downloads (run_log_calls [call_ok 100, call_ok 105] init_database) 7 = 2 \<and>
   map_option total_downloads (users (run_log_calls [call_ok 100, call_ok 105] init_database) 7) = Some (Some 2)"
  by code_simp


theorem counter_equals_download_rows_witness:
  "counter_matches (run_log_calls [call_ok 100, call_ok 105] init_database) 7 \<and>
   count_downloads (run_log_calls [call_ok 100, call_ok 105] init_database) 7 = 2 \<and>
   map_option total_downloads (users (run_log_calls [call_ok 100, call_ok 105] init_database) 7)
     = Some (Some 2) \<and>
   (\<forall>u. counter_matches init_database u) \<and>
   (\<forall>u. counter_matches (snd (log_call_on (call_ok 100) init_database)) u) \<and>
   fst (log_call_on (call_ok 100) init_database) = None \<and>
   count_downloads (snd (log_call_on (call_ok 100) init_database)) 7 = 1 \<and>
   fst (log_call_on ((call_ok 105)\<lparr> call_fault := Some CommitFails \<rparr>) init_database) \<noteq> None \<and>
   snd (log_call_on ((call_ok 105)\<lparr> call_fault := Some CommitFails \<rparr>) init_database)
     = init_database"
proof -
  have u: "u_id (call_user (call_ok 100)) = 7" by (simp add: call_ok_def alice_def)
  have c0: "count_downloads init_database 7 = 0"
    by (simp add: count_downloads_def init_database_def)
  have i: "\<forall>u. counter_matches init_database u" by (simp add: counter_matches_init)
  from counter_equals_download_rows[of "[call_ok 100, call_ok 105]" 7 init_database "call_ok 100"]
    counter_equals_download_rows[of "[]" 7 init_database
      "(call_ok 105)\<lparr> call_fault := Some CommitFails \<rparr>"]
    eval_call_ok eval_call_commit_fails eval_two_calls i u c0
  show ?thesis by simp
qed

section \<open>Statistics and the user row\<close>

lemma log_user_download_success:
  assumes "log_user_download H fs fault ck user v p d = (None, d')"
  shows "\<exists>h. calculate_file_hash H fs p = Inr h \<and> d' = both_statements ck user v h d"
proof (cases "calculate_file_hash H fs p")
  case (Inl e)
  with assms show ?thesis by (simp add: log_user_download_def)
next
  case (Inr h)
  show ?thesis
  proof (cases "transaction fault (insert_or_replace_user user (now_join ck) (now_last ck))
                  (insert_download user v (now_download ck) h) d")
    case (Inl e)
    with Inr assms show ?thesis by (simp add: log_user_download_def)
  next
    case (Inr d'')
    from transaction_cases[OF this] Inr \<open>calculate_file_hash H fs p = Inr h\<close> assms
    show ?thesis by (auto simp: log_user_download_def both_statements_def)
  qed
qed

lemma calculate_file_hash_content:
  assumes "fs p = Some content"
  shows "calculate_file_hash H fs p =
           Inr (hexdigest (md5_digest H (fst (hash_loop H (md5_new H) content []))))"
  using calculate_file_hash_reads_Some[of fs p content H] assms
  by (auto simp: calculate_file_hash_def)

lemma fingerprints_both_statements:
  "fingerprints (both_statements ck user v h d) uid =
     (if uid = u_id user then insert h (fingerprints d uid) else fingerprints d uid)"
  by (auto simp: fingerprints_def both_statements_def insert_download_def
      insert_or_replace_user_def)

lemma finite_fingerprints: "finite (fingerprints d uid)"
  by (simp add: fingerprints_def)

lemma users_both_statements_self:
  "\<exists>r. users (both_statements ck user v h d) (u_id user) = Some r"
  by (simp add: users_both_statements)

text \<open>
  Claim C10. The value that the statistics text prints as unique files is the number of
  rows of \<open>downloads\<close> with the user's id, not the number of distinct fingerprints: when
  the user records two downloads of files with the same bytes, the printed value grows by
  two, while the set of the user's fingerprints grows by at most one element.
\<close>

theorem unique_downloads_counts_rows:
  assumes "fs1 p1 = Some content" and "fs2 p2 = Some content"
    and "log_user_download H fs1 fault1 ck1 user v1 p1 d = (None, d1)"
    and "log_user_download H fs2 fault2 ck2 user v2 p2 d1 = (None, d2)"
    and "db w = d2"
  shows "(\<exists>n_total t_last.
            stats_query d2 (u_id user) =
              Some (n_total, t_last, length (filter (\<lambda>r. user_id r = u_id user) (downloads d2))) \<and>
            callback_handler user ''stats'' w =
              (None, emit (EditMessageText
                       (MsgStats (or_zero n_total)
                          (length (filter (\<lambda>r. user_id r = u_id user) (downloads d2))) t_last))
                     (emit Answer w))) \<and>
         length (filter (\<lambda>r. user_id r = u_id user) (downloads d2)) =
           length (filter (\<lambda>r. user_id r = u_id user) (downloads d)) + 2 \<and>
         card (fingerprints d2 (u_id user)) \<le> card (fingerprints d (u_id user)) + 1"
proof -
  let ?h = "hexdigest (md5_digest H (fst (hash_loop H (md5_new H) content [])))"
  from log_user_download_success[OF assms(3)] calculate_file_hash_content[of fs1 p1 content H] assms(1)
  have d1: "d1 = both_statements ck1 user v1 ?h d" by auto
  from log_user_download_success[OF assms(4)] calculate_file_hash_content[of fs2 p2 content H] assms(2)
  have d2: "d2 = both_statements ck2 user v2 ?h d1" by auto
  obtain r where r: "users d2 (u_id user) = Some r"
    using users_both_statements_self d2 by blast
  have count: "count_downloads d2 (u_id user) = count_downloads d (u_id user) + 2"
    by (simp add: d1 d2 count_both_statements)
  have fp: "fingerprints d2 (u_id user) = insert ?h (fingerprints d (u_id user))"
    by (simp add: d1 d2 fingerprints_both_statements)
  have card: "card (fingerprints d2 (u_id user)) \<le> card (fingerprints d (u_id user)) + 1"
    unfolding fp using finite_fingerprints[of d "u_id user"] by (simp add: card_insert_if)
  have sq: "stats_query d2 (u_id user) =
      Some (total_downloads r, last_download_date r, count_downloads d2 (u_id user))"
    using r by (simp add: stats_query_def)
  have cb: "callback_handler user ''stats'' w =
      (None, emit (EditMessageText
               (MsgStats (or_zero (total_downloads r)) (count_downloads d2 (u_id user))
                  (last_download_date r)))
             (emit Answer w))"
    using sq assms(5) by (simp add: callback_handler_def Let_def emit_def)
  from sq cb count card show ?thesis
    unfolding count_downloads_def by blast
qed


lemma log_call_on_call_ok:
  "log_call_on (call_ok t) d =
     log_user_download count_md5 [''downloads/abc.mp3'' \<mapsto> song_bytes] None (clock_at t)
       alice song ''downloads/abc.mp3'' d"
  by (simp add: log_call_on_def call_ok_def)

lemma eval_second_call_ok:
  "fst (log_call_on (call_ok 105) (snd (log_call_on (call_ok 100) init_database))) = None"
  by code_simp

lemma eval_stats_shown:
  "shown (snd (callback_handler alice ''stats''
      (world_fresh\<lparr> db := run_log_calls [call_ok 100, call_ok 105] init_database \<rparr>))) =
     [MsgStats 2 2 105]"
  by code_simp

theorem unique_downloads_counts_rows_witness:
  "length (filter (\<lambda>r. user_id r = 7)
      (downloads (run_log_calls [call_ok 100, call_ok 105] init_database))) = 2 \<and>
   card (fingerprints (run_log_calls [call_ok 100, call_ok 105] init_database) 7) \<le> 1 \<and>
   shown (snd (callback_handler alice ''stats''
      (world_fresh\<lparr> db := run_log_calls [call_ok 100, call_ok 105] init_database \<rparr>))) =
     [MsgStats 2 2 105]"
proof -
  let ?fs = "[''downloads/abc.mp3'' \<mapsto> song_bytes]"
  let ?d1 = "snd (log_call_on (call_ok 100) init_database)"
  let ?d2 = "snd (log_call_on (call_ok 105) ?d1)"
  let ?w = "world_fresh\<lparr> db := ?d2 \<rparr>"
  have a1: "?fs ''downloads/abc.mp3'' = Some song_bytes" by simp
  have a3: "log_user_download count_md5 ?fs None (clock_at 100) alice song
              ''downloads/abc.mp3'' init_database = (None, ?d1)"
    using eval_call_ok by (simp add: log_call_on_call_ok prod_eq_iff)
  have a4: "log_user_download count_md5 ?fs None (clock_at 105) alice song
              ''downloads/abc.mp3'' ?d1 = (None, ?d2)"
    using eval_second_call_ok by (simp add: log_call_on_call_ok prod_eq_iff)
  have a5: "db ?w = ?d2" by simp
  have u: "u_id alice = 7" by (simp add: alice_def)
  have e: "downloads init_database = []" "fingerprints init_database 7 = {}"
    by (simp_all add: init_database_def fingerprints_def)
  have r: "run_log_calls [call_ok 100, call_ok 105] init_database = ?d2" by simp
  from unique_downloads_counts_rows[of ?fs "''downloads/abc.mp3''" song_bytes ?fs
      "''downloads/abc.mp3''" count_md5 None "clock_at 100" alice song init_database ?d1
      None "clock_at 105" song ?d2 ?w, OF a1 a1 a3 a4 a5]
  have "length (filter (\<lambda>r. user_id r = 7) (downloads ?d2)) = 2"
    and "card (fingerprints ?d2 7) \<le> 1"
    unfolding u e by simp_all
  with eval_stats_shown show ?thesis unfolding r by simp
qed


text \<open>
  Claim C7, evaluated on the code. A user records a download at clock reading 100 and, with
  the same profile, a second one at 105. The statement \<open>INSERT OR REPLACE\<close> writes a new
  row: the counter is carried over and incremented, the user name is the same, and
  \<open>join_date\<close> is 105 after the second call although it was 100 after the first.
\<close>

theorem upsert_resets_join_date:
  "map_option join_date (users (snd (log_call_on (call_ok 100) init_database)) 7) = Some 100 \<and>
   map_option join_date (users (run_log_calls [call_ok 100, call_ok 105] init_database) 7)
     = Some 105 \<and>
   map_option username (users (run_log_calls [call_ok 100, call_ok 105] init_database) 7)
     = map_option username (users (snd (log_call_on (call_ok 100) init_database)) 7) \<and>
   map_option total_downloads (users (run_log_calls [call_ok 100, call_ok 105] init_database) 7)
     = Some (Some 2)"
  by code_simp

section \<open>Selections that name no candidate\<close>

lemma below_ten: "(k::nat) < 10 \<Longrightarrow> k \<in> set [0, 1, 2, 3, 4, 5, 6, 7, 8, 9]"
  by (simp, arith)

lemma digit_facts_list:
  "\<forall>k \<in> set [0, 1, 2, 3, 4, 5, 6, 7, 8, 9 :: nat].
     digit_value (digit_char k) = k \<and> is_digit (digit_char k)"
  by (simp add: digit_value_def digit_char_def is_digit_def)

lemma digit_value_digit_char: "k < 10 \<Longrightarrow> digit_value (digit_char k) = k"
  using below_ten digit_facts_list by blast

lemma is_digit_digit_char: "k < 10 \<Longrightarrow> is_digit (digit_char k)"
  using below_ten digit_facts_list by blast

lemma str_nat_digits: "\<forall>c \<in> set (str_nat n). is_digit c"
proof (induction n rule: str_nat.induct)
  case (1 n)
  show ?case
  proof (cases "n < 10")
    case True
    then show ?thesis by (subst str_nat.simps) (simp add: is_digit_digit_char)
  next
    case False
    with "1.IH" show ?thesis
      by (subst str_nat.simps) (simp add: is_digit_digit_char)
  qed
qed

lemma str_nat_nonempty: "str_nat n \<noteq> []"
  by (subst str_nat.simps) simp

lemma int_of_digits_snoc:
  "int_of_digits (ds @ [c]) = 10 * int_of_digits ds + digit_value c"
  by (simp add: int_of_digits_def)

lemma int_of_digits_str_nat: "int_of_digits (str_nat n) = n"
proof (induction n rule: str_nat.induct)
  case (1 n)
  show ?case
  proof (cases "n < 10")
    case True
    then show ?thesis
      by (subst str_nat.simps) (simp add: int_of_digits_def digit_value_digit_char)
  next
    case False
    with "1.IH" show ?thesis
      by (subst str_nat.simps) (simp add: int_of_digits_snoc digit_value_digit_char)
  qed
qed

lemma takeWhile_str_nat: "takeWhile is_digit (str_nat n) = str_nat n"
  using str_nat_digits[of n] by (simp add: takeWhile_eq_all_conv)

lemma match_select_str_nat: "match_select (''select_video_'' @ str_nat n) = Some n"
  by (simp add: match_select_def takeWhile_str_nat str_nat_nonempty int_of_digits_str_nat)

lemma match_select_selection_data:
  "match_select (selection_data i) = (if i < 0 then None else Some (nat i))"
proof (cases "i < 0")
  case True
  have "\<not> is_digit CHR ''-''" by (simp add: is_digit_def)
  with True show ?thesis by (simp add: selection_data_def str_int_def match_select_def)
next
  case False
  then show ?thesis
    using match_select_str_nat[of "nat i"] by (simp add: selection_data_def str_int_def)
qed

lemma selection_data_not_cancel: "selection_data i \<noteq> ''cancel''"
  by (simp add: selection_data_def)

lemma download_body_no_match:
  "match_select data = None \<Longrightarrow>
   download_body E user data w = (Inr END, emit (EditMessageText MsgInvalidSelection) w)"
  by (simp add: download_body_def)

lemma download_body_out_of_range:
  "match_select data = Some i \<Longrightarrow> length (dict_get (search_results w) []) \<le> i \<Longrightarrow>
   download_body E user data w = (Inr END, emit (EditMessageText MsgVideoNotFound) w)"
  by (simp add: download_body_def Let_def)

lemma emit_emit: "emit b (emit a w) = w\<lparr> trace := trace w @ [a, b] \<rparr>"
  by (simp add: emit_def)

lemma search_results_emit [simp]: "search_results (emit e w) = search_results w"
  by (simp add: emit_def)

lemma fetches_answer_edit:
  "fetches (w\<lparr> trace := trace w @ [Answer, EditMessageText m] \<rparr>) = fetches w"
  by (simp add: fetches_def)

lemma select_and_download_rejects:
  assumes nc: "d \<noteq> ''cancel''"
    and m: "match_select d = None \<or>
       (\<exists>j. match_select d = Some j \<and> length (dict_get (search_results w) []) \<le> j)"
  shows "rejected w (select_and_download E user d w)"
  using m
proof
  assume "match_select d = None"
  from download_body_no_match[OF this, of E user "emit Answer w"] nc
  show ?thesis
    by (simp add: select_and_download_def Let_def emit_emit rejected_def fetches_answer_edit)
next
  assume "\<exists>j. match_select d = Some j \<and> length (dict_get (search_results w) []) \<le> j"
  then obtain j where j: "match_select d = Some j"
    "length (dict_get (search_results (emit Answer w)) []) \<le> j" by auto
  from download_body_out_of_range[OF j, of E user] nc
  show ?thesis
    by (simp add: select_and_download_def Let_def emit_emit rejected_def fetches_answer_edit)
qed

text \<open>
  Claim C3. A selection whose callback data is not \<open>cancel\<close> and either does not match
  the pattern or carries an index that is not below the number of stored candidates (none
  when no search has stored any) is rejected: the handler shows \<open>Selection invalide\<close> or
  \<open>Video non trouvee\<close>, makes no fetch, changes nothing else and ends the conversation. In
  particular this holds for the data \<open>select_video_i\<close> of every integer \<open>i\<close> outside
  \<open>[0, len(candidates))\<close>: a negative \<open>i\<close> does not match \<open>\d+\<close>.
\<close>

theorem invalid_selection_rejected:
  "(data \<noteq> ''cancel'' \<and>
      (match_select data = None \<or>
       (\<exists>j. match_select data = Some j \<and> length (dict_get (search_results w) []) \<le> j))
    \<longrightarrow> rejected w (select_and_download E user data w)) \<and>
   (i < 0 \<or> int (length (dict_get (search_results w) [])) \<le> i
    \<longrightarrow> rejected w (select_and_download E user (selection_data i) w))"
proof -
  have index: "match_select (selection_data i) = None \<or>
       (\<exists>j. match_select (selection_data i) = Some j \<and>
            length (dict_get (search_results w) []) \<le> j)"
    if "i < 0 \<or> int (length (dict_get (search_results w) [])) \<le> i"
    using that by (auto simp: match_select_selection_data)
  show ?thesis
    using select_and_download_rejects[of data w E user]
      select_and_download_rejects[OF selection_data_not_cancel, of i w E user] index
    by blast
qed

lemma eval_match_select_7: "match_select ''select_video_7'' = Some 7"
  by code_simp

lemma eval_match_select_junk: "match_select ''select_video_x'' = None"
  by code_simp

lemma length_world_searched: "length (dict_get (search_results world_searched) []) = 2"
  by (simp add: world_searched_def dict_get_def)

lemma length_world_fresh: "length (dict_get (search_results world_fresh) []) = 0"
  by (simp add: world_fresh_def dict_get_def)

theorem invalid_selection_rejected_witness:
  "rejected world_searched
     (select_and_download (env_ok 100) alice ''select_video_7'' world_searched) \<and>
   rejected world_searched
     (select_and_download (env_ok 100) alice ''select_video_x'' world_searched) \<and>
   rejected world_searched
     (select_and_download (env_ok 100) alice (selection_data (- 1)) world_searched) \<and>
   rejected world_searched
     (select_and_download (env_ok 100) alice (selection_data 2) world_searched) \<and>
   rejected world_fresh
     (select_and_download (env_ok 100) alice (selection_data 0) world_fresh)"
proof -
  have nc: "''select_video_7'' \<noteq> ''cancel''" "''select_video_x'' \<noteq> ''cancel''" by simp_all
  from invalid_selection_rejected[of "''select_video_7''" world_searched "env_ok 100" alice "- 1"]
    invalid_selection_rejected[of "''select_video_x''" world_searched "env_ok 100" alice 2]
    invalid_selection_rejected[of "''select_video_x''" world_fresh "env_ok 100" alice 0]
    nc eval_match_select_7 eval_match_select_junk length_world_searched length_world_fresh
  show ?thesis by simp
qed

section \<open>The search\<close>







text \<open>
  Claim C6, evaluated on the code. The search for \<open>asdkjasdkj9182\<close> returns a dictionary
  whose \<open>entries\<close> list is empty. The test \<open>not search_results or 'entries' not in
  search_results\<close> does not catch it: the handler shows the result keyboard with the cancel
  button alone, stores the empty list and returns \<open>SELECT_RESULT\<close>.
\<close>

theorem empty_search_awaits_selection:
  "fst (search_audio bot_config (env_search []) ''asdkjasdkj9182'' world_fresh) = SELECT_RESULT \<and>
   search_results (snd (search_audio bot_config (env_search []) ''asdkjasdkj9182'' world_fresh))
     = Some [] \<and>
   shown (snd (search_audio bot_config (env_search []) ''asdkjasdkj9182'' world_fresh)) =
     [MsgSearching, MsgResults [CancelButton]]"
  by code_simp

section \<open>After the fetch\<close>

lemma disk_emit [simp]: "disk (emit e w) = disk w"
  by (simp add: emit_def)

lemma db_emit [simp]: "db (emit e w) = db w"
  by (simp add: emit_def)

lemma trace_emit [simp]: "trace (emit e w) = trace w @ [e]"
  by (simp add: emit_def)

lemma shown_append: "shown (w\<lparr> trace := xs @ ys \<rparr>) = concat (map shown_text xs) @ concat (map shown_text ys)"
  by (simp add: shown_def)

text \<open>
  Claim C5, as the code has it. When the selection is valid, the fetch has returned, the
  file could be opened and the audio has been sent, and \<open>_log_user_download\<close> then
  raises \<open>e\<close>: the \<open>except\<close> clause logs \<open>e\<close> and shows \<open>Erreur : e\<close> to the user as the
  last message, the success text is not shown, the conversation ends, the audio stays sent
  and the database is as before the call.
\<close>

theorem storage_failure_is_shown:
  assumes "data \<noteq> ''cancel''"
    and "match_select data = Some i"
    and "i < length (dict_get (search_results w) [])"
    and "v_title (dict_get (search_results w) [] ! i) = Some ttl"
    and "v_webpage_url (dict_get (search_results w) [] ! i) = Some url"
    and "extract_info_download E url = Inr info"
    and "write_file (written info) (disk w)
           (str_replace ''.webm'' ''.mp3'' (prepared_filename info)) = Some content"
    and "send_audio_fault E = None"
    and "fst (log_user_download (hashlib E) (write_file (written info) (disk w))
           (database_fault E) (clk E) user (dict_get (search_results w) [] ! i)
           (str_replace ''.webm'' ''.mp3'' (prepared_filename info)) (db w)) = Some e"
  shows "fst (select_and_download E user data w) = END \<and>
         trace (snd (select_and_download E user data w)) =
           trace w @
             [Answer, EditMessageText (MsgDownloading ttl), ExtractInfo url True,
              SendAudio content ttl (dict_get (v_uploader (dict_get (search_results w) [] ! i)) ''Unknown''),
              LoggerError e, EditMessageText (MsgError e)] \<and>
         db (snd (select_and_download E user data w)) = db w"
proof -
  let ?v = "dict_get (search_results w) [] ! i"
  let ?p = "str_replace ''.webm'' ''.mp3'' (prepared_filename info)"
  let ?fs = "write_file (written info) (disk w)"
  let ?l = "log_user_download (hashlib E) ?fs (database_fault E) (clk E) user ?v ?p (db w)"
  have rb: "snd ?l = db w"
    using log_failure_rolls_back[of "hashlib E" ?fs "database_fault E" "clk E" user ?v ?p "db w"]
      assms(9) by simp
  have l: "?l = (Some e, db w)" using assms(9) rb by (simp add: prod_eq_iff)
  show ?thesis
    using assms(1-8) l
    by (simp add: select_and_download_def download_body_def fetch_def open_and_send_def
        log_and_clean_def Let_def)
qed


lemma eval_storage_failure:
  "fst (select_and_download ((env_ok 100)\<lparr> database_fault := Some CommitFails \<rparr>) alice
          ''select_video_0'' world_searched) = END \<and>
   trace (snd (select_and_download ((env_ok 100)\<lparr> database_fault := Some CommitFails \<rparr>) alice
          ''select_video_0'' world_searched)) =
     [Answer, EditMessageText (MsgDownloading ''Song''),
      ExtractInfo ''https://youtu.be/abc'' True, SendAudio song_bytes ''Song'' ''Unknown'',
      LoggerError (DatabaseError ''commit''), EditMessageText (MsgError (DatabaseError ''commit''))]"
  by code_simp

text \<open>
  Claim C5 as stated fails: with a commit that fails after the audio of \<open>Song\<close> was sent,
  the user is shown the error and never the success text.
\<close>

theorem storage_failure_reported_as_error:
  "SendAudio song_bytes ''Song'' ''Unknown'' \<in>
     set (trace (snd (select_and_download ((env_ok 100)\<lparr> database_fault := Some CommitFails \<rparr>)
            alice ''select_video_0'' world_searched))) \<and>
   shown (snd (select_and_download ((env_ok 100)\<lparr> database_fault := Some CommitFails \<rparr>)
            alice ''select_video_0'' world_searched)) =
     [MsgDownloading ''Song'', MsgError (DatabaseError ''commit'')] \<and>
   MsgDownloaded ''Song'' \<notin>
     set (shown (snd (select_and_download ((env_ok 100)\<lparr> database_fault := Some CommitFails \<rparr>)
            alice ''select_video_0'' world_searched)))"
  using eval_storage_failure by (simp add: shown_def)

lemma eval_match_select_0: "match_select ''select_video_0'' = Some 0"
  by code_simp

lemma eval_replace_abc: "str_replace ''.webm'' ''.mp3'' ''downloads/abc.webm'' = ''downloads/abc.mp3''"
  by code_simp

lemma eval_log_commit_fails:
  "fst (log_user_download count_md5 [''downloads/abc.mp3'' \<mapsto> song_bytes] (Some CommitFails)
          (clock_at 100) alice song ''downloads/abc.mp3'' init_database) =
     Some (DatabaseError ''commit'')"
  by code_simp

theorem storage_failure_is_shown_witness:
  "fst (select_and_download ((env_ok 100)\<lparr> database_fault := Some CommitFails \<rparr>) alice
          ''select_video_0'' world_searched) = END \<and>
   trace (snd (select_and_download ((env_ok 100)\<lparr> database_fault := Some CommitFails \<rparr>) alice
          ''select_video_0'' world_searched)) =
     [Answer, EditMessageText (MsgDownloading ''Song''),
      ExtractInfo ''https://youtu.be/abc'' True, SendAudio song_bytes ''Song'' ''Unknown'',
      LoggerError (DatabaseError ''commit''), EditMessageText (MsgError (DatabaseError ''commit''))] \<and>
   db (snd (select_and_download ((env_ok 100)\<lparr> database_fault := Some CommitFails \<rparr>) alice
          ''select_video_0'' world_searched)) = init_database"
proof -
  let ?E = "(env_ok 100)\<lparr> database_fault := Some CommitFails \<rparr>"
  let ?info = "\<lparr> prepared_filename = ''downloads/abc.webm'',
                 written = Some (''downloads/abc.mp3'', song_bytes) \<rparr>"
  have v: "dict_get (search_results world_searched) [] ! 0 = song"
    by (simp add: world_searched_def dict_get_def)
  have a1: "''select_video_0'' \<noteq> ''cancel''" by simp
  have a3: "0 < length (dict_get (search_results world_searched) [])"
    by (simp add: world_searched_def dict_get_def)
  have a4: "v_title (dict_get (search_results world_searched) [] ! 0) = Some ''Song''"
    by (simp add: v song_def)
  have a5: "v_webpage_url (dict_get (search_results world_searched) [] ! 0) =
      Some ''https://youtu.be/abc''"
    by (simp add: v song_def)
  have a6: "extract_info_download ?E ''https://youtu.be/abc'' = Inr ?info"
    by (simp add: env_ok_def)
  have a7: "write_file (written ?info) (disk world_searched)
      (str_replace ''.webm'' ''.mp3'' (prepared_filename ?info)) = Some song_bytes"
    by (simp add: write_file_def eval_replace_abc)
  have a8: "send_audio_fault ?E = None" by (simp add: env_ok_def)
  have a9: "fst (log_user_download (hashlib ?E) (write_file (written ?info) (disk world_searched))
           (database_fault ?E) (clk ?E) alice (dict_get (search_results world_searched) [] ! 0)
           (str_replace ''.webm'' ''.mp3'' (prepared_filename ?info)) (db world_searched)) =
      Some (DatabaseError ''commit'')"
    using eval_log_commit_fails
    by (simp add: write_file_def dict_get_def eval_replace_abc env_ok_def world_searched_def
        world_fresh_def)
  have u: "dict_get (v_uploader song) ''Unknown'' = ''Unknown''"
    by (simp add: song_def dict_get_def)
  have d: "db world_searched = init_database" "trace world_searched = []"
    by (simp_all add: world_searched_def world_fresh_def)
  from storage_failure_is_shown[OF a1 eval_match_select_0 a3 a4 a5 a6 a7 a8 a9]
  show ?thesis by (simp add: v u d)
qed


text \<open>
  Claim C4, evaluated on the code. The fetch writes \<open>downloads/abc.mp3\<close>, which was not
  there before. When \<open>send_audio\<close> raises, or when the commit fails after the audio
  was sent, the handler returns with the file still on disk and without a call of
  \<open>os.remove\<close>; only the path on which everything succeeds removes it.
\<close>

theorem artifact_left_on_disk:
  "disk world_searched ''downloads/abc.mp3'' = None \<and>
   disk (snd (select_and_download
           ((env_ok 100)\<lparr> send_audio_fault := Some (TelegramError ''Timed out'') \<rparr>) alice
           ''select_video_0'' world_searched)) ''downloads/abc.mp3'' = Some song_bytes \<and>
   disk (snd (select_and_download ((env_ok 100)\<lparr> database_fault := Some CommitFails \<rparr>) alice
           ''select_video_0'' world_searched)) ''downloads/abc.mp3'' = Some song_bytes \<and>
   filter (\<lambda>e. e = OsRemove ''downloads/abc.mp3'')
     (trace (snd (select_and_download
           ((env_ok 100)\<lparr> send_audio_fault := Some (TelegramError ''Timed out'') \<rparr>) alice
           ''select_video_0'' world_searched))) = [] \<and>
   disk (snd (select_and_download (env_ok 100) alice ''select_video_0'' world_searched))
     ''downloads/abc.mp3'' = None"
  by code_simp

text \<open>
  Claim C2, evaluated on the code. \<open>RATE_LIMIT_SECONDS\<close> is 30. A user downloads at clock
  reading 100, searches again and selects at 105: the second attempt fetches and is
  reported as downloaded like the first, and both downloads are recorded.
\<close>

theorem cooldown_not_enforced:
  "RATE_LIMIT_SECONDS bot_config = 30 \<and>
   fetches two_attempts =
     [ExtractInfo ''https://youtu.be/abc'' True, ExtractInfo ''https://youtu.be/abc'' True] \<and>
   map download_date (downloads (db two_attempts)) = [100, 105] \<and>
   shown two_attempts =
     [MsgDownloading ''Song'', MsgDownloaded ''Song'', MsgAskQuery, MsgSearching,
      MsgResults [ResultButton ''1. Song...'' ''select_video_0'',
                  ResultButton ''2. Tune...'' ''select_video_1'', CancelButton],
      MsgDownloading ''Song'', MsgDownloaded ''Song'']"
  by code_simp

end
